theory Spec2Isabelle
  imports Complex_Main "HOL-Library.Multiset" "HOL-Library.Word"
begin

section \<open>Map geometry used by the capture pipeline\<close>

text \<open>
  The capture pipeline of \<^verbatim>\<open>MapSection\<close> (second module of
  \<^verbatim>\<open>src/components/MapComponent.tsx\<close>) works on the map library's points and bounds.
  JavaScript numbers are modelled as real numbers; the operations below are the library
  operations the source calls, with the arithmetic they perform.
\<close>

datatype point = Point (px: real) (py: real)

record bounds =
  bmin :: point
  bmax :: point

text \<open>\<^verbatim>\<open>L.bounds(a, b)\<close>: the smallest rectangle that contains both points.\<close>

definition mk_bounds :: "point \<Rightarrow> point \<Rightarrow> bounds" where
  "mk_bounds a b =
     \<lparr>bmin = Point (min (px a) (px b)) (min (py a) (py b)),
      bmax = Point (max (px a) (px b)) (max (py a) (py b))\<rparr>"

text \<open>\<^verbatim>\<open>bounds.getSize()\<close> is \<^verbatim>\<open>max.subtract(min)\<close>; nothing is rounded.\<close>

definition getSize :: "bounds \<Rightarrow> point" where
  "getSize b = Point (px (bmax b) - px (bmin b)) (py (bmax b) - py (bmin b))"

definition divideBy :: "point \<Rightarrow> real \<Rightarrow> point" where
  "divideBy p n = Point (px p / n) (py p / n)"

definition floor_point :: "point \<Rightarrow> point" where
  "floor_point p = Point (of_int \<lfloor>px p\<rfloor>) (of_int \<lfloor>py p\<rfloor>)"

subsection \<open>The tile range (step 3 of \<^verbatim>\<open>handleAnalyzeMapView\<close>)\<close>

definition tileSize :: real where
  "tileSize = 256"

definition tileRange :: "bounds \<Rightarrow> bounds" where
  "tileRange pixelBounds =
     mk_bounds (floor_point (divideBy (bmin pixelBounds) tileSize))
               (floor_point (divideBy (bmax pixelBounds) tileSize))"

text \<open>
  The two nested \<^verbatim>\<open>for\<close> loops of step 4 run \<^verbatim>\<open>x\<close> from \<^verbatim>\<open>tileRange.min.x\<close>
  to \<^verbatim>\<open>tileRange.max.x\<close> (outer) and \<^verbatim>\<open>y\<close> from \<^verbatim>\<open>tileRange.min.y\<close> to
  \<^verbatim>\<open>tileRange.max.y\<close> (inner), both inclusive, in steps of one. The corners of the
  range are whole numbers, so the loop variables are integers.
\<close>

definition tileCoords :: "bounds \<Rightarrow> (int \<times> int) list" where
  "tileCoords pixelBounds =
     (let r = tileRange pixelBounds in
      List.product [\<lfloor>px (bmin r)\<rfloor> .. \<lfloor>px (bmax r)\<rfloor>] [\<lfloor>py (bmin r)\<rfloor> .. \<lfloor>py (bmax r)\<rfloor>])"

text \<open>
  Vocabulary of the coverage property: a pixel position lies inside the pixel bounds when
  it is between the two corners (borders included), and the tile with index \<open>(x, y)\<close>
  holds the positions of the half-open square of side \<^const>\<open>tileSize\<close> whose top-left
  corner is \<open>(x * tileSize, y * tileSize)\<close>.
\<close>

definition inside :: "bounds \<Rightarrow> point \<Rightarrow> bool" where
  "inside b p \<longleftrightarrow>
     px (bmin b) \<le> px p \<and> px p \<le> px (bmax b) \<and> py (bmin b) \<le> py p \<and> py p \<le> py (bmax b)"

definition tile_holds :: "int \<times> int \<Rightarrow> point \<Rightarrow> bool" where
  "tile_holds t p \<longleftrightarrow>
     of_int (fst t) * tileSize \<le> px p \<and> px p < (of_int (fst t) + 1) * tileSize \<and>
     of_int (snd t) * tileSize \<le> py p \<and> py p < (of_int (snd t) + 1) * tileSize"

section \<open>Geographic coordinates\<close>

datatype latlng = LatLng (lat: real) (lng: real)

record latLngBounds =
  southWest :: latlng
  northEast :: latlng

text \<open>
  \<^verbatim>\<open>new LatLngBounds(corner1, corner2)\<close> extends an empty box by both corners: the
  south-west corner takes the smaller latitude and longitude, the north-east corner the
  larger ones.
\<close>

definition toLatLngBounds :: "latlng \<Rightarrow> latlng \<Rightarrow> latLngBounds" where
  "toLatLngBounds a b =
     \<lparr>southWest = LatLng (min (lat a) (lat b)) (min (lng a) (lng b)),
      northEast = LatLng (max (lat a) (lat b)) (max (lng a) (lng b))\<rparr>"

definition getNorthWest :: "latLngBounds \<Rightarrow> latlng" where
  "getNorthWest b = LatLng (lat (northEast b)) (lng (southWest b))"

definition getSouthEast :: "latLngBounds \<Rightarrow> latlng" where
  "getSouthEast b = LatLng (lat (southWest b)) (lng (northEast b))"

text \<open>
  \<^verbatim>\<open>latlng.toBounds(sizeInMeters)\<close> of the map library: the box whose corners are
  \<open>sizeInMeters / 2\<close> metres away from the point along the meridian and along the
  point's parallel; 40075017 is the length of the equator in metres.
\<close>

definition toBounds :: "latlng \<Rightarrow> real \<Rightarrow> latLngBounds" where
  "toBounds c sizeInMeters =
     (let latAccuracy = 180 * sizeInMeters / 40075017;
          lngAccuracy = latAccuracy / cos ((pi / 180) * lat c)
      in toLatLngBounds (LatLng (lat c - latAccuracy) (lng c - lngAccuracy))
                        (LatLng (lat c + latAccuracy) (lng c + lngAccuracy)))"

text \<open>
  Measures of a box, for the properties of the region selector: its centre (the library's
  \<^verbatim>\<open>LatLngBounds.getCenter\<close>), its north-south extent in metres along a meridian, and
  its east-west extent in metres along the parallel of latitude \<open>phi\<close>. One degree of
  a great circle is \<open>40075017 / 360\<close> metres, and a parallel is shorter than the
  equator by the factor \<open>cos phi\<close>.
\<close>

definition bounds_center :: "latLngBounds \<Rightarrow> latlng" where
  "bounds_center b =
     LatLng ((lat (southWest b) + lat (northEast b)) / 2)
            ((lng (southWest b) + lng (northEast b)) / 2)"

definition meters_north_south :: "latLngBounds \<Rightarrow> real" where
  "meters_north_south b = (lat (northEast b) - lat (southWest b)) * (40075017 / 360)"

definition meters_east_west :: "real \<Rightarrow> latLngBounds \<Rightarrow> real" where
  "meters_east_west phi b =
     (lng (northEast b) - lng (southWest b)) * cos ((pi / 180) * phi) * (40075017 / 360)"

section \<open>Images, canvases and files\<close>

text \<open>
  A pixel is an RGBA value of four bytes. An image and a canvas are a width, a height and
  the pixel at each position; a fresh canvas is transparent black everywhere.
\<close>

type_synonym pixel = "32 word"

record image =
  img_width :: nat
  img_height :: nat
  img_data :: "int \<times> int \<Rightarrow> pixel"

record canvas =
  cv_width :: nat
  cv_height :: nat
  cv_data :: "int \<times> int \<Rightarrow> pixel"

text \<open>
  Assigning a number to \<^verbatim>\<open>canvas.width\<close> or \<^verbatim>\<open>canvas.height\<close> keeps its integer part
  (the sizes assigned here are never negative).
\<close>

definition canvas_dim :: "real \<Rightarrow> nat" where
  "canvas_dim r = nat \<lfloor>r\<rfloor>"

definition createCanvas :: "nat \<Rightarrow> nat \<Rightarrow> canvas" where
  "createCanvas w h = \<lparr>cv_width = w, cv_height = h, cv_data = (\<lambda>_. 0)\<rparr>"

definition in_canvas :: "canvas \<Rightarrow> int \<times> int \<Rightarrow> bool" where
  "in_canvas c q \<longleftrightarrow> 0 \<le> fst q \<and> fst q < int (cv_width c) \<and> 0 \<le> snd q \<and> snd q < int (cv_height c)"

text \<open>
  \<^verbatim>\<open>ctx.drawImage(img, dx, dy)\<close> lays the image at its own size on the rectangle whose
  top-left corner is \<open>(dx, dy)\<close>; what falls outside the canvas is clipped. The model
  draws without anti-aliasing: a canvas pixel is painted when its centre lies in the
  rectangle, with the image pixel under that centre, composed over the old canvas pixel by
  \<open>over\<close> (the compositing operation of the context). At whole-number offsets this is
  the plain pixel-by-pixel copy.
\<close>

definition covered :: "image \<Rightarrow> real \<Rightarrow> real \<Rightarrow> int \<times> int \<Rightarrow> bool" where
  "covered img dx dy q \<longleftrightarrow>
     dx \<le> of_int (fst q) + 1 / 2 \<and> of_int (fst q) + 1 / 2 < dx + of_nat (img_width img) \<and>
     dy \<le> of_int (snd q) + 1 / 2 \<and> of_int (snd q) + 1 / 2 < dy + of_nat (img_height img)"

definition sample :: "image \<Rightarrow> real \<Rightarrow> real \<Rightarrow> int \<times> int \<Rightarrow> pixel" where
  "sample img dx dy q =
     img_data img (\<lfloor>of_int (fst q) + 1 / 2 - dx\<rfloor>, \<lfloor>of_int (snd q) + 1 / 2 - dy\<rfloor>)"

definition drawImage :: "(pixel \<Rightarrow> pixel \<Rightarrow> pixel) \<Rightarrow> image \<Rightarrow> real \<Rightarrow> real \<Rightarrow> canvas \<Rightarrow> canvas" where
  "drawImage over img dx dy c =
     c\<lparr>cv_data := (\<lambda>q. if in_canvas c q \<and> covered img dx dy q
                         then over (sample img dx dy q) (cv_data c q)
                         else cv_data c q)\<rparr>"

type_synonym blob = "8 word list"

record web_file =
  file_parts :: "blob list"
  file_name :: string
  file_type :: string

section \<open>The map instance and the browser\<close>

text \<open>
  \<^verbatim>\<open>SATELLITE_TILE_URL\<close> with \<^verbatim>\<open>{z}\<close>, \<^verbatim>\<open>{y}\<close> and \<^verbatim>\<open>{x}\<close> replaced: the address of
  a tile is determined by the three numbers.
\<close>

datatype tileUrl = TileUrl (url_z: int) (url_y: int) (url_x: int)

definition tileUrl :: "int \<Rightarrow> int \<Rightarrow> int \<Rightarrow> tileUrl" where
  "tileUrl zoom x y = TileUrl zoom y x"

text \<open>
  What the handlers read from the map instance, with the values it has when they read it:
  its centre, its zoom, the size of its container (\<^verbatim>\<open>mapInstance.getSize()\<close>) and its
  projection to pixel coordinates at a zoom. The capture reads the zoom, the size and the
  projection after \<^verbatim>\<open>fitBounds\<close> and the wait of 500 ms.
\<close>

record leafletMap =
  getCenter :: latlng
  getZoom :: int
  getViewSize :: "nat \<times> nat"
  project :: "latlng \<Rightarrow> int \<Rightarrow> point"

text \<open>
  What the capture reads from the browser: whether \<^verbatim>\<open>getContext('2d')\<close> yields a
  context for the stitch canvas and for the final canvas, the image a tile address loads
  (\<open>None\<close> when \<^verbatim>\<open>onerror\<close> fires), the compositing of a drawn pixel over a canvas
  pixel, the pixels a scaled \<^verbatim>\<open>drawImage\<close> produces for a target size, and the blob
  \<^verbatim>\<open>toBlob\<close> passes to its callback for a canvas and a type (\<open>None\<close> for \<^verbatim>\<open>null\<close>).
\<close>

record browser =
  stitchContext :: bool
  finalContext :: bool
  loadImage :: "tileUrl \<Rightarrow> image option"
  source_over :: "pixel \<Rightarrow> pixel \<Rightarrow> pixel"
  drawScaled :: "canvas \<Rightarrow> nat \<times> nat \<Rightarrow> int \<times> int \<Rightarrow> pixel"
  toBlob :: "canvas \<Rightarrow> string \<Rightarrow> blob option"

section \<open>The map section: state and effects\<close>

text \<open>
  The state of \<^verbatim>\<open>MapSection\<close> that the handlers read and write. \<^verbatim>\<open>MapInsights\<close> is the
  parsed answer of the insights request, a list of keys with their paragraphs.
\<close>

type_synonym mapInsights = "(string \<times> string) list"

record mapSection =
  mapInstance :: "leafletMap option"
  radius :: real
  analysisBounds :: "latLngBounds option"
  insights :: "mapInsights option"
  isInsightsLoading :: bool
  insightsError :: "string option"
  selectedTopics :: "string list"
  customTopic :: string
  isMapViewLoading :: bool
  mapViewError :: "string option"

text \<open>
  The errors thrown inside the \<^verbatim>\<open>try\<close> block of \<^verbatim>\<open>handleAnalyzeMapView\<close>:
  \<^item> \<open>DegenerateRegionError\<close>: \<^verbatim>\<open>Error("Analysis bounds have zero area.")\<close>;
  \<^item> \<open>StitchContextError\<close>: \<^verbatim>\<open>Error("Could not get canvas context")\<close>;
  \<^item> \<open>TileFetchError\<close>: \<^verbatim>\<open>Error(`Failed to load tile: ${tileUrl}`)\<close>;
  \<^item> \<open>FinalContextError\<close>: \<^verbatim>\<open>Error("Could not get final canvas context")\<close>;
  \<^item> \<open>InvalidStateError\<close>: thrown by the scaled \<^verbatim>\<open>drawImage\<close> when the canvas it
    reads has a zero width or height;
  \<^item> \<open>EncodingError\<close>: \<^verbatim>\<open>Error("Canvas to Blob conversion failed.")\<close>.
\<close>

datatype capture_error =
    DegenerateRegionError
  | StitchContextError
  | TileFetchError tileUrl
  | FinalContextError
  | InvalidStateError
  | EncodingError

text \<open>The effects of the handlers, in the order in which they happen.\<close>

datatype event =
    SetIsMapViewLoading bool
  | SetMapViewError "string option"
  | FitBounds latLngBounds
  | Wait nat
  | CreateCanvas nat nat
  | ImageSrc tileUrl
  | DrawImage image real real
  | DrawImageScaled canvas "nat \<times> nat"
  | ToBlob canvas string
  | OnAnalyzeFromMap web_file
  | ConsoleError capture_error
  | SetAnalysisBounds "latLngBounds option"
  | SetInsightsError "string option"
  | SetIsInsightsLoading bool
  | SetInsights "mapInsights option"
  | GetMapInsights latLngBounds "string list" string
  | ConsoleErrorInsights

fun apply_event :: "event \<Rightarrow> mapSection \<Rightarrow> mapSection" where
  "apply_event (SetIsMapViewLoading b) s = s\<lparr>isMapViewLoading := b\<rparr>"
| "apply_event (SetMapViewError e) s = s\<lparr>mapViewError := e\<rparr>"
| "apply_event (SetAnalysisBounds b) s = s\<lparr>analysisBounds := b\<rparr>"
| "apply_event (SetInsightsError e) s = s\<lparr>insightsError := e\<rparr>"
| "apply_event (SetIsInsightsLoading b) s = s\<lparr>isInsightsLoading := b\<rparr>"
| "apply_event (SetInsights i) s = s\<lparr>insights := i\<rparr>"
| "apply_event _ s = s"

definition replay :: "event list \<Rightarrow> mapSection \<Rightarrow> mapSection" where
  "replay evs s = fold apply_event evs s"

subsection \<open>The region selector: \<^verbatim>\<open>updateAnalysisBounds\<close>\<close>

definition updateAnalysisBounds :: "mapSection \<Rightarrow> event list" where
  "updateAnalysisBounds s =
     (case mapInstance s of
        None \<Rightarrow> []
      | Some m \<Rightarrow>
          if radius s > 0
          then [SetAnalysisBounds (Some (toBounds (getCenter m) (radius s * 2)))]
          else [SetAnalysisBounds None])"

text \<open>
  The contract \<open>computeBounds(center, radiusMeters)\<close> of the region selector is
  \<^const>\<open>updateAnalysisBounds\<close> on a map whose centre is \<open>center\<close>: the value of the
  analysis bounds after the update.
\<close>

definition computeBounds :: "mapSection \<Rightarrow> latLngBounds option" where
  "computeBounds s = analysisBounds (replay (updateAnalysisBounds s) s)"

subsection \<open>The capture: \<^verbatim>\<open>handleAnalyzeMapView\<close>\<close>

record tile =
  tile_img :: image
  tile_x :: int
  tile_y :: int

text \<open>
  \<^verbatim>\<open>await Promise.all(tilePromises)\<close>: the tiles in the order of the requests when every
  image loads, and otherwise the rejection of a tile that failed. Which of several failed
  tiles rejects first depends on the network; the model names the first one in the order
  of the requests.
\<close>

fun awaitTiles :: "(tileUrl \<Rightarrow> image option) \<Rightarrow> int \<Rightarrow> (int \<times> int) list \<Rightarrow> tileUrl + tile list" where
  "awaitTiles ld zoom [] = Inr []"
| "awaitTiles ld zoom ((x, y) # cs) =
     (case ld (tileUrl zoom x y) of
        None \<Rightarrow> Inl (tileUrl zoom x y)
      | Some img \<Rightarrow>
          (case awaitTiles ld zoom cs of
             Inl u \<Rightarrow> Inl u
           | Inr ts \<Rightarrow> Inr (\<lparr>tile_img = img, tile_x = x, tile_y = y\<rparr> # ts)))"

text \<open>Step 5: where a tile is drawn, and the loop that draws the tiles in list order.\<close>

definition canvasX :: "bounds \<Rightarrow> tile \<Rightarrow> real" where
  "canvasX pixelBounds t = of_int (tile_x t) * tileSize - px (bmin pixelBounds)"

definition canvasY :: "bounds \<Rightarrow> tile \<Rightarrow> real" where
  "canvasY pixelBounds t = of_int (tile_y t) * tileSize - py (bmin pixelBounds)"

definition drawTile :: "(pixel \<Rightarrow> pixel \<Rightarrow> pixel) \<Rightarrow> bounds \<Rightarrow> tile \<Rightarrow> canvas \<Rightarrow> canvas" where
  "drawTile over pixelBounds t c =
     drawImage over (tile_img t) (canvasX pixelBounds t) (canvasY pixelBounds t) c"


definition stitchCanvas0 :: "bounds \<Rightarrow> canvas" where
  "stitchCanvas0 pixelBounds =
     createCanvas (canvas_dim (px (getSize pixelBounds))) (canvas_dim (py (getSize pixelBounds)))"

definition stitch :: "(pixel \<Rightarrow> pixel \<Rightarrow> pixel) \<Rightarrow> bounds \<Rightarrow> tile list \<Rightarrow> canvas" where
  "stitch over pixelBounds tiles =
     fold (drawTile over pixelBounds) tiles (stitchCanvas0 pixelBounds)"

definition pixelBoundsOf :: "leafletMap \<Rightarrow> latLngBounds \<Rightarrow> bounds" where
  "pixelBoundsOf m ab =
     mk_bounds (project m (getNorthWest ab) (getZoom m)) (project m (getSouthEast ab) (getZoom m))"

text \<open>
  The body of the \<^verbatim>\<open>try\<close> block, step by step: each step yields its effects and
  either the file handed over or the error thrown. \<open>after\<close> puts the effects that
  came first in front.
\<close>

definition after :: "event list \<Rightarrow> event list \<times> 'a \<Rightarrow> event list \<times> 'a" where
  "after evs r = (evs @ fst r, snd r)"

text \<open>Step 7: the blob of the final canvas, and the file made of it.\<close>

definition encodeFinal :: "browser \<Rightarrow> canvas \<Rightarrow> event list \<times> (capture_error + web_file)" where
  "encodeFinal br finalCanvas =
     after [ToBlob finalCanvas ''image/png'']
       (case toBlob br finalCanvas ''image/png'' of
          None \<Rightarrow> ([], Inl EncodingError)
        | Some blob \<Rightarrow>
            (let imageFile =
                   \<lparr>file_parts = [blob], file_name = ''map-view.png'', file_type = ''image/png''\<rparr>
             in ([OnAnalyzeFromMap imageFile], Inr imageFile)))"

text \<open>Step 6: the final canvas of the size of the map's container, and the scaled drawing.\<close>

definition scaleToFinal ::
    "browser \<Rightarrow> nat \<times> nat \<Rightarrow> canvas \<Rightarrow> event list \<times> (capture_error + web_file)" where
  "scaleToFinal br finalSize stitchCanvas =
     after [CreateCanvas (fst finalSize) (snd finalSize)]
       (if \<not> finalContext br then ([], Inl FinalContextError)
        else if cv_width stitchCanvas = 0 \<or> cv_height stitchCanvas = 0
        then ([], Inl InvalidStateError)
        else
          (let finalCanvas =
                 \<lparr>cv_width = fst finalSize, cv_height = snd finalSize,
                  cv_data = drawScaled br stitchCanvas finalSize\<rparr>
           in after [DrawImageScaled stitchCanvas finalSize] (encodeFinal br finalCanvas)))"

text \<open>Steps 3 to 5: the requests for the tiles of the range, the wait for all of them, the drawing.\<close>

definition fetchAndStitch ::
    "browser \<Rightarrow> int \<Rightarrow> nat \<times> nat \<Rightarrow> bounds \<Rightarrow> event list \<times> (capture_error + web_file)" where
  "fetchAndStitch br zoom finalSize pixelBounds =
     (let coords = tileCoords pixelBounds
      in after (map (\<lambda>(x, y). ImageSrc (tileUrl zoom x y)) coords)
           (case awaitTiles (loadImage br) zoom coords of
              Inl u \<Rightarrow> ([], Inl (TileFetchError u))
            | Inr tiles \<Rightarrow>
                after (map (\<lambda>t. DrawImage (tile_img t) (canvasX pixelBounds t) (canvasY pixelBounds t)) tiles)
                  (scaleToFinal br finalSize (stitch (source_over br) pixelBounds tiles))))"

text \<open>Steps 1 and 2, after the map has been fitted to the analysis bounds.\<close>

definition capture ::
    "browser \<Rightarrow> leafletMap \<Rightarrow> latLngBounds \<Rightarrow> event list \<times> (capture_error + web_file)" where
  "capture br m ab =
     after [FitBounds ab, Wait 500]
       (let zoom = getZoom m;
            finalSize = getViewSize m;
            pixelBounds = pixelBoundsOf m ab;
            pixelBoundsSize = getSize pixelBounds
        in if px pixelBoundsSize = 0 \<or> py pixelBoundsSize = 0 then ([], Inl DegenerateRegionError)
           else
             after [CreateCanvas (canvas_dim (px pixelBoundsSize)) (canvas_dim (py pixelBoundsSize))]
               (if \<not> stitchContext br then ([], Inl StitchContextError)
                else fetchAndStitch br zoom finalSize pixelBounds))"

definition handleAnalyzeMapView :: "browser \<Rightarrow> mapSection \<Rightarrow> event list" where
  "handleAnalyzeMapView br s =
     (case mapInstance s of
        None \<Rightarrow> []
      | Some m \<Rightarrow>
          (case analysisBounds s of
             None \<Rightarrow> []
           | Some ab \<Rightarrow>
               [SetIsMapViewLoading True, SetMapViewError None] @
               (case capture br m ab of
                  (evs, Inr f) \<Rightarrow> evs
                | (evs, Inl e) \<Rightarrow>
                    evs @ [ConsoleError e,
                           SetMapViewError (Some ''Could not capture map view. Please try again.'')]) @
               [SetIsMapViewLoading False]))"

text \<open>The tile addresses requested in a run, in the order of the requests.\<close>

fun requested :: "event list \<Rightarrow> tileUrl list" where
  "requested [] = []"
| "requested (ImageSrc u # evs) = u # requested evs"
| "requested (_ # evs) = requested evs"

text \<open>The result of a run: the file handed over, or the error caught.\<close>

definition outcome :: "browser \<Rightarrow> mapSection \<Rightarrow> (capture_error + web_file) option" where
  "outcome br s =
     (case mapInstance s of
        None \<Rightarrow> None
      | Some m \<Rightarrow> (case analysisBounds s of None \<Rightarrow> None | Some ab \<Rightarrow> Some (snd (capture br m ab))))"

subsection \<open>The insights request: \<^verbatim>\<open>handleGetInsights\<close>\<close>

text \<open>
  \<^verbatim>\<open>customTopic.trim()\<close> removes the white space at both ends (here: the white-space
  characters of ASCII).
\<close>

definition is_space :: "char \<Rightarrow> bool" where
  "is_space c \<longleftrightarrow> c \<in> {CHR '' '', CHR 0x09, CHR 0x0A, CHR 0x0B, CHR 0x0C, CHR 0x0D}"

definition trim :: "string \<Rightarrow> string" where
  "trim str = rev (dropWhile is_space (rev (dropWhile is_space str)))"

text \<open>
  \<open>ask\<close> is the awaited result of \<^verbatim>\<open>getMapInsights\<close> of the service module: the parsed
  insights, or \<open>None\<close> when the promise rejects.
\<close>

definition handleGetInsights ::
    "(latLngBounds \<Rightarrow> string list \<Rightarrow> string \<Rightarrow> mapInsights option) \<Rightarrow> mapSection \<Rightarrow> event list" where
  "handleGetInsights ask s =
     (let trimmedCustomTopic = trim (customTopic s);
          allTopics = selectedTopics s @ (if trimmedCustomTopic \<noteq> [] then [trimmedCustomTopic] else [])
      in case mapInstance s of
           None \<Rightarrow> [SetInsightsError (Some ''Please select at least one topic.'')]
         | Some m \<Rightarrow>
             if allTopics = [] then [SetInsightsError (Some ''Please select at least one topic.'')]
             else
               [SetIsInsightsLoading True, SetInsightsError None, SetInsights None] @
               (let center = getCenter m;
                    insightsBounds = toBounds center (10000 * 2)
                in GetMapInsights insightsBounds (selectedTopics s) trimmedCustomTopic #
                   (case ask insightsBounds (selectedTopics s) trimmedCustomTopic of
                      Some result \<Rightarrow> [SetInsights (Some result)]
                    | None \<Rightarrow>
                        [ConsoleErrorInsights,
                         SetInsightsError (Some ''Failed to get insights. Please try again.'')])) @
               [SetIsInsightsLoading False])"

section \<open>Image segmentation: the service and the analysis section\<close>






datatype json =
    JNull
  | JBool bool
  | JNum real
  | JStr string
  | JArr "json list"
  | JObj "(string \<times> json) list"


record biodiversityAnalysisResult =
  percentages :: json
  segmentedImage :: string









subsection \<open>\<^verbatim>\<open>handleAnalysis\<close> of the analysis section\<close>

record analysisSection =
  imageFile :: "web_file option"
  previewImage :: "string option"
  analysisResult :: "biodiversityAnalysisResult option"
  isLoading :: bool
  error :: "string option"
  startAnalysis :: bool

datatype analysis_event =
    SetError "string option"
  | SetIsLoading bool
  | SetAnalysisResult "biodiversityAnalysisResult option"
  | OnAnalysisComplete
  | ConsoleErrorAnalysis

fun apply_analysis_event :: "analysis_event \<Rightarrow> analysisSection \<Rightarrow> analysisSection" where
  "apply_analysis_event (SetError e) s = s\<lparr>error := e\<rparr>"
| "apply_analysis_event (SetIsLoading b) s = s\<lparr>isLoading := b\<rparr>"
| "apply_analysis_event (SetAnalysisResult r) s = s\<lparr>analysisResult := r\<rparr>"
| "apply_analysis_event _ s = s"

definition replay_analysis :: "analysis_event list \<Rightarrow> analysisSection \<Rightarrow> analysisSection" where
  "replay_analysis evs s = fold apply_analysis_event evs s"








section \<open>Sample inputs\<close>

text \<open>
  A map at zoom 10 in a container of 800 by 600 pixels, with a linear projection onto the
  tile grid (the world is \<open>256 * 2 ^ zoom\<close> pixels wide), and analysis bounds whose pixel
  bounds measure 512 by 512 pixels.
\<close>

definition sample_map :: leafletMap where
  "sample_map =
     \<lparr>getCenter = LatLng 0 0, getZoom = 10, getViewSize = (800, 600),
      project = (\<lambda>ll z. Point ((lng ll + 180) / 360 * (256 * 2 ^ nat z))
                                ((90 - lat ll) / 360 * (256 * 2 ^ nat z)))\<rparr>"

definition sample_bounds :: latLngBounds where
  "sample_bounds = \<lparr>southWest = LatLng (- (45 / 128)) (- (45 / 128)), northEast = LatLng (45 / 128) (45 / 128)\<rparr>"

definition solid :: "pixel \<Rightarrow> image" where
  "solid colour = \<lparr>img_width = 256, img_height = 256, img_data = (\<lambda>_. colour)\<rparr>"

text \<open>
  A browser in which every tile loads as an opaque tile of one colour, drawing replaces the
  pixel underneath, scaling takes the nearest pixel, and \<^verbatim>\<open>toBlob\<close> yields some bytes.
\<close>

definition sample_browser :: browser where
  "sample_browser =
     \<lparr>stitchContext = True, finalContext = True,
      loadImage = (\<lambda>u. Some (solid 0xFF996633)),
      source_over = (\<lambda>src dst. src),
      drawScaled = (\<lambda>c sz q. cv_data c (fst q * int (cv_width c) div int (fst sz),
                                          snd q * int (cv_height c) div int (snd sz))),
      toBlob = (\<lambda>c t. Some [137, 80, 78, 71])\<rparr>"

definition sample_section :: mapSection where
  "sample_section =
     \<lparr>mapInstance = Some sample_map, radius = 500, analysisBounds = Some sample_bounds,
      insights = None, isInsightsLoading = False, insightsError = None,
      selectedTopics = [''safety''], customTopic = '' air quality '',
      isMapViewLoading = False, mapViewError = None\<rparr>"

text \<open>
  Analysis bounds a quarter of a pixel wide at zoom 10, analysis bounds whose two corners
  are equal, a browser in which one tile fails to load, and a browser whose \<^verbatim>\<open>toBlob\<close>
  yields \<^verbatim>\<open>null\<close>.
\<close>

definition thin_bounds :: latLngBounds where
  "thin_bounds = \<lparr>southWest = LatLng (- (45 / 128)) 0, northEast = LatLng (45 / 128) (45 / 131072)\<rparr>"

definition point_bounds :: latLngBounds where
  "point_bounds = \<lparr>southWest = LatLng 0 0, northEast = LatLng 0 0\<rparr>"

definition failing_browser :: browser where
  "failing_browser =
     sample_browser\<lparr>loadImage := (\<lambda>u. if u = TileUrl 10 256 512 then None else Some (solid 0xFF996633))\<rparr>"







definition sample_ask :: "latLngBounds \<Rightarrow> string list \<Rightarrow> string \<Rightarrow> mapInsights option" where
  "sample_ask b ts c = Some [(''district'', ''Dhanbad'')]"


section \<open>Facts about traces and the steps of the capture\<close>

lemma fst_after [simp]: "fst (after evs r) = evs @ fst r" by (simp add: after_def)

lemma snd_after [simp]: "snd (after evs r) = snd r" by (simp add: after_def)

lemma replay_Nil [simp]: "replay [] s = s" by (simp add: replay_def)

lemma replay_Cons [simp]: "replay (e # evs) s = replay evs (apply_event e s)" by (simp add: replay_def)

lemma replay_append [simp]: "replay (evs @ evs') s = replay evs' (replay evs s)" by (simp add: replay_def)

lemma requested_append [simp]: "requested (evs @ evs') = requested evs @ requested evs'"
  by (induction evs rule: requested.induct) simp_all

lemma requested_ImageSrc [simp]: "requested (map (\<lambda>(x, y). ImageSrc (tileUrl z x y)) cs) = map (\<lambda>(x, y). tileUrl z x y) cs"
  by (induction cs) auto

lemma requested_DrawImage [simp]: "requested (map (\<lambda>t. DrawImage (f t) (g t) (h t)) ts) = []"
  by (induction ts) auto

lemma set_requested: "set (requested evs) = {u. ImageSrc u \<in> set evs}"
  by (induction evs rule: requested.induct) auto

lemma awaitTiles_Inl:
  "awaitTiles ld z cs = Inl u \<Longrightarrow> ld u = None \<and> u \<in> (\<lambda>(x, y). tileUrl z x y) ` set cs"
  by (induction cs) (auto split: option.splits sum.splits)

lemma awaitTiles_Inr:
  "awaitTiles ld z cs = Inr ts \<Longrightarrow>
     map (\<lambda>t. (tile_x t, tile_y t)) ts = cs \<and>
     (\<forall>t \<in> set ts. ld (tileUrl z (tile_x t) (tile_y t)) = Some (tile_img t))"
  by (induction cs arbitrary: ts) (auto split: option.splits sum.splits)

lemma awaitTiles_failure:
  "c \<in> set cs \<Longrightarrow> ld (tileUrl z (fst c) (snd c)) = None \<Longrightarrow> \<exists>u. awaitTiles ld z cs = Inl u"
  by (induction cs) (auto split: option.splits sum.splits)

lemma cv_dims_drawTile [simp]:
  "cv_width (drawTile over pb t c) = cv_width c" "cv_height (drawTile over pb t c) = cv_height c"
  by (simp_all add: drawTile_def drawImage_def)

lemma cv_dims_fold:
  "cv_width (fold (drawTile over pb) ts c) = cv_width c \<and>
   cv_height (fold (drawTile over pb) ts c) = cv_height c"
  by (induction ts arbitrary: c) simp_all

lemma cv_dims_stitch [simp]:
  "cv_width (stitch over pb ts) = canvas_dim (px (getSize pb))"
  "cv_height (stitch over pb ts) = canvas_dim (py (getSize pb))"
  by (simp_all add: stitch_def cv_dims_fold stitchCanvas0_def createCanvas_def)

lemma requested_encodeFinal [simp]: "requested (fst (encodeFinal br c)) = []"
  by (simp add: encodeFinal_def Let_def split: option.splits)

lemma requested_scaleToFinal [simp]: "requested (fst (scaleToFinal br sz c)) = []"
  by (simp add: scaleToFinal_def Let_def)

lemma requested_fetchAndStitch [simp]:
  "requested (fst (fetchAndStitch br z sz pb)) = map (\<lambda>(x, y). tileUrl z x y) (tileCoords pb)"
  by (simp add: fetchAndStitch_def Let_def split: sum.splits)

lemma requested_capture:
  "requested (fst (capture br m ab)) =
     (if px (getSize (pixelBoundsOf m ab)) = 0 \<or> py (getSize (pixelBoundsOf m ab)) = 0 \<or> \<not> stitchContext br
      then []
      else map (\<lambda>(x, y). tileUrl (getZoom m) x y) (tileCoords (pixelBoundsOf m ab)))"
  by (simp add: capture_def Let_def)

lemma requested_handle:
  "mapInstance s = Some m \<Longrightarrow> analysisBounds s = Some ab \<Longrightarrow>
     requested (handleAnalyzeMapView br s) = requested (fst (capture br m ab))"
  by (cases "capture br m ab") (simp add: handleAnalyzeMapView_def split: sum.splits)

lemmas capture_unfold = capture_def fetchAndStitch_def scaleToFinal_def encodeFinal_def after_def Let_def

lemma handle_events:
  assumes "mapInstance s = Some m" and "analysisBounds s = Some ab"
  shows "ToBlob c ty \<in> set (handleAnalyzeMapView br s) \<longleftrightarrow> ToBlob c ty \<in> set (fst (capture br m ab))"
    and "OnAnalyzeFromMap f \<in> set (handleAnalyzeMapView br s) \<longleftrightarrow> OnAnalyzeFromMap f \<in> set (fst (capture br m ab))"
    and "CreateCanvas w h \<in> set (handleAnalyzeMapView br s) \<longleftrightarrow> CreateCanvas w h \<in> set (fst (capture br m ab))"
    and "DrawImage img dx dy \<in> set (handleAnalyzeMapView br s) \<longleftrightarrow> DrawImage img dx dy \<in> set (fst (capture br m ab))"
  using assms
  by (cases "capture br m ab"; auto simp: handleAnalyzeMapView_def split: sum.splits)+

lemma capture_success:
  assumes "snd (capture br m ab) = Inr f"
  shows "file_name f = ''map-view.png'' \<and> file_type f = ''image/png'' \<and>
         (\<exists>c blob. ToBlob c ''image/png'' \<in> set (fst (capture br m ab)) \<and>
                   toBlob br c ''image/png'' = Some blob \<and> file_parts f = [blob] \<and>
                   cv_width c = fst (getViewSize m) \<and> cv_height c = snd (getViewSize m)) \<and>
         OnAnalyzeFromMap f \<in> set (fst (capture br m ab))"
  using assms
  by (auto simp: capture_unfold split: sum.splits option.splits if_splits)



subsection \<open>The sample inputs\<close>

lemma sample_facts:
  "mapInstance sample_section = Some sample_map"
  "analysisBounds sample_section = Some sample_bounds"
  "getZoom sample_map = 10" "getViewSize sample_map = (800, 600)"
  "getCenter sample_map = LatLng 0 0"
  "stitchContext sample_browser" "finalContext sample_browser"
  "loadImage sample_browser = (\<lambda>u. Some (solid 0xFF996633))"
  "toBlob sample_browser = (\<lambda>c t. Some [137, 80, 78, 71])"
  by (simp_all add: sample_section_def sample_map_def sample_browser_def)

lemma sample_pixelBounds:
  "pixelBoundsOf sample_map sample_bounds = \<lparr>bmin = Point 130816 65280, bmax = Point 131328 65792\<rparr>"
  by (simp add: pixelBoundsOf_def sample_map_def sample_bounds_def getNorthWest_def getSouthEast_def mk_bounds_def)

lemma sample_coords:
  "tileCoords \<lparr>bmin = Point 130816 65280, bmax = Point 131328 65792\<rparr> =
     [(511, 255), (511, 256), (511, 257), (512, 255), (512, 256), (512, 257),
      (513, 255), (513, 256), (513, 257)]"
  by (simp add: tileCoords_def tileRange_def mk_bounds_def floor_point_def divideBy_def tileSize_def)

lemma sample_size: "getSize (pixelBoundsOf sample_map sample_bounds) = Point 512 512"
  by (simp add: sample_pixelBounds getSize_def)

lemma sample_requested:
  "requested (handleAnalyzeMapView br sample_section) =
     (if stitchContext br
      then [TileUrl 10 255 511, TileUrl 10 256 511, TileUrl 10 257 511,
            TileUrl 10 255 512, TileUrl 10 256 512, TileUrl 10 257 512,
            TileUrl 10 255 513, TileUrl 10 256 513, TileUrl 10 257 513]
      else [])"
  by (simp add: requested_handle [OF sample_facts(1,2)] requested_capture getSize_def
      sample_pixelBounds sample_coords sample_facts(3) tileUrl_def)

lemma thin_pixelBounds:
  "pixelBoundsOf sample_map thin_bounds = \<lparr>bmin = Point 131072 65280, bmax = Point (524289 / 4) 65792\<rparr>"
  by (simp add: pixelBoundsOf_def sample_map_def thin_bounds_def getNorthWest_def getSouthEast_def mk_bounds_def)

lemma thin_coords: "tileCoords \<lparr>bmin = Point 131072 65280, bmax = Point (524289 / 4) 65792\<rparr> =
  [(512,255),(512,256),(512,257)]"
  by (simp add: tileCoords_def tileRange_def mk_bounds_def floor_point_def divideBy_def tileSize_def)


section \<open>Tile-index coverage\<close>

lemma tile_holds_iff:
  "tile_holds t p \<longleftrightarrow> fst t = \<lfloor>px p / 256\<rfloor> \<and> snd t = \<lfloor>py p / 256\<rfloor>"
proof -
  have a: "of_int k * 256 \<le> x \<and> x < (of_int k + 1) * 256 \<longleftrightarrow> k = \<lfloor>x / 256\<rfloor>"
    for k :: int and x :: real
  proof -
    have "k = \<lfloor>x / 256\<rfloor> \<longleftrightarrow> of_int k \<le> x / 256 \<and> x / 256 < of_int k + 1"
      using floor_eq_iff [of "x / 256" k] by auto
    also have "\<dots> \<longleftrightarrow> of_int k * 256 \<le> x \<and> x < (of_int k + 1) * 256"
      by (simp add: pos_le_divide_eq pos_divide_less_eq)
    finally show ?thesis by simp
  qed
  show ?thesis
    unfolding tile_holds_def tileSize_def
    using a [of "fst t" "px p"] a [of "snd t" "py p"] by blast
qed

lemma tileCoords_mk_bounds:
  "tileCoords (mk_bounds a b) =
     List.product [\<lfloor>px (bmin (mk_bounds a b)) / 256\<rfloor> .. \<lfloor>px (bmax (mk_bounds a b)) / 256\<rfloor>]
                  [\<lfloor>py (bmin (mk_bounds a b)) / 256\<rfloor> .. \<lfloor>py (bmax (mk_bounds a b)) / 256\<rfloor>]"
proof -
  have m: "min \<lfloor>u / 256\<rfloor> \<lfloor>v / 256\<rfloor> = \<lfloor>min u v / 256\<rfloor>"
          "max \<lfloor>u / 256\<rfloor> \<lfloor>v / 256\<rfloor> = \<lfloor>max u v / 256\<rfloor>" for u v :: real
    by (auto simp: min_def max_def floor_mono divide_right_mono dest: antisym)
  have f: "min (real_of_int i) (of_int j) = of_int (min i j)"
          "max (real_of_int i) (of_int j) = of_int (max i j)" for i j :: int
    by (simp_all add: min_def max_def)
  show ?thesis
    by (simp add: tileCoords_def tileRange_def mk_bounds_def floor_point_def divideBy_def
        tileSize_def Let_def f m)
qed

lemma distinct_tileCoords: "distinct (tileCoords pb)"
  by (simp add: tileCoords_def Let_def distinct_product)

text \<open>
  Claim C1. The tile indices fetched for the pixel bounds built from any two corners are
  exactly the rectangle of indices from \<open>floor (min / tileSize)\<close> to
  \<open>floor (max / tileSize)\<close> in both axes, each index once. Every pixel position inside
  the pixel bounds lies in exactly one fetched tile, and every tile that holds a position
  of the pixel bounds is fetched. A capture that reaches step 4 requests the tiles of
  exactly these indices, in this order.
\<close>

theorem tile_range_covers_pixel_bounds:
  fixes a b :: point
  defines "pb \<equiv> mk_bounds a b"
  shows "set (tileCoords pb) =
           {\<lfloor>px (bmin pb) / tileSize\<rfloor> .. \<lfloor>px (bmax pb) / tileSize\<rfloor>} \<times>
           {\<lfloor>py (bmin pb) / tileSize\<rfloor> .. \<lfloor>py (bmax pb) / tileSize\<rfloor>}
         \<and> distinct (tileCoords pb)
         \<and> (\<forall>p. inside pb p \<longrightarrow> (\<exists>!t. t \<in> set (tileCoords pb) \<and> tile_holds t p))
         \<and> (\<forall>t p. inside pb p \<and> tile_holds t p \<longrightarrow> t \<in> set (tileCoords pb))
         \<and> (\<forall>br s m ab. mapInstance s = Some m \<and> analysisBounds s = Some ab
               \<and> pixelBoundsOf m ab = pb \<and> px (getSize pb) \<noteq> 0 \<and> py (getSize pb) \<noteq> 0
               \<and> stitchContext br \<longrightarrow>
               requested (handleAnalyzeMapView br s) =
                 map (\<lambda>(x, y). tileUrl (getZoom m) x y) (tileCoords pb))"
proof -
  have s: "set (tileCoords pb) =
           {\<lfloor>px (bmin pb) / 256\<rfloor> .. \<lfloor>px (bmax pb) / 256\<rfloor>} \<times>
           {\<lfloor>py (bmin pb) / 256\<rfloor> .. \<lfloor>py (bmax pb) / 256\<rfloor>}"
    unfolding pb_def tileCoords_mk_bounds by simp
  have d: "distinct (tileCoords pb)"
    by (rule distinct_tileCoords)
  have c: "t \<in> set (tileCoords pb)" if "inside pb p" "tile_holds t p" for t p
  proof -
    from that(1) have "\<lfloor>px (bmin pb) / 256\<rfloor> \<le> \<lfloor>px p / 256\<rfloor>" "\<lfloor>px p / 256\<rfloor> \<le> \<lfloor>px (bmax pb) / 256\<rfloor>"
      "\<lfloor>py (bmin pb) / 256\<rfloor> \<le> \<lfloor>py p / 256\<rfloor>" "\<lfloor>py p / 256\<rfloor> \<le> \<lfloor>py (bmax pb) / 256\<rfloor>"
      by (simp_all add: inside_def floor_mono divide_right_mono)
    with that(2) show ?thesis
      unfolding s tile_holds_iff by (cases t) simp
  qed
  have u: "\<exists>!t. t \<in> set (tileCoords pb) \<and> tile_holds t p" if "inside pb p" for p
  proof (rule ex1I [of _ "(\<lfloor>px p / 256\<rfloor>, \<lfloor>py p / 256\<rfloor>)"])
    have h: "tile_holds (\<lfloor>px p / 256\<rfloor>, \<lfloor>py p / 256\<rfloor>) p"
      by (simp add: tile_holds_iff)
    with c [OF that] show "(\<lfloor>px p / 256\<rfloor>, \<lfloor>py p / 256\<rfloor>) \<in> set (tileCoords pb) \<and>
        tile_holds (\<lfloor>px p / 256\<rfloor>, \<lfloor>py p / 256\<rfloor>) p"
      by simp
  next
    fix t assume "t \<in> set (tileCoords pb) \<and> tile_holds t p"
    then show "t = (\<lfloor>px p / 256\<rfloor>, \<lfloor>py p / 256\<rfloor>)"
      by (cases t) (simp add: tile_holds_iff)
  qed
  have r: "requested (handleAnalyzeMapView br s) =
                 map (\<lambda>(x, y). tileUrl (getZoom m) x y) (tileCoords pb)"
    if "mapInstance s = Some m \<and> analysisBounds s = Some ab
               \<and> pixelBoundsOf m ab = pb \<and> px (getSize pb) \<noteq> 0 \<and> py (getSize pb) \<noteq> 0
               \<and> stitchContext br" for br s m ab
    using that by (simp add: requested_handle [of s m ab] requested_capture)
  from s d c u r show ?thesis
    unfolding tileSize_def by blast
qed

theorem tile_range_covers_pixel_bounds_witness:
  "inside (mk_bounds (Point 130816 65280) (Point 131328 65792)) (Point 131000 65500) \<and>
   (\<exists>!t. t \<in> set (tileCoords (mk_bounds (Point 130816 65280) (Point 131328 65792))) \<and>
          tile_holds t (Point 131000 65500)) \<and>
   tile_holds (511, 255) (Point 131000 65500) \<and>
   (511, 255) \<in> set (tileCoords (mk_bounds (Point 130816 65280) (Point 131328 65792))) \<and>
   pixelBoundsOf sample_map sample_bounds = mk_bounds (Point 130816 65280) (Point 131328 65792) \<and>
   requested (handleAnalyzeMapView sample_browser sample_section) =
     map (\<lambda>(x, y). tileUrl 10 x y) (tileCoords (mk_bounds (Point 130816 65280) (Point 131328 65792)))"
proof -
  let ?pb = "mk_bounds (Point 130816 65280) (Point 131328 65792)"
  have i: "inside ?pb (Point 131000 65500)"
    by (simp add: inside_def mk_bounds_def)
  have h: "tile_holds (511, 255) (Point 131000 65500)"
    by (simp add: tile_holds_def tileSize_def)
  have p: "pixelBoundsOf sample_map sample_bounds = ?pb"
    by (simp add: sample_pixelBounds mk_bounds_def)
  have g: "px (getSize ?pb) \<noteq> 0 \<and> py (getSize ?pb) \<noteq> 0"
    by (simp add: getSize_def mk_bounds_def)
  note th = tile_range_covers_pixel_bounds [of "Point 130816 65280" "Point 131328 65792"]
  from th i h have 1: "(\<exists>!t. t \<in> set (tileCoords ?pb) \<and> tile_holds t (Point 131000 65500)) \<and>
      (511, 255) \<in> set (tileCoords ?pb)"
    by blast
  from th p g sample_facts(1,2,6) have "requested (handleAnalyzeMapView sample_browser sample_section) =
     map (\<lambda>(x, y). tileUrl (getZoom sample_map) x y) (tileCoords ?pb)"
    by blast
  with i h p 1 show ?thesis by (simp add: sample_facts(3))
qed

section \<open>All-or-nothing fetch\<close>

lemma fetchAndStitch_failure:
  assumes "awaitTiles (loadImage br) z (tileCoords pb) = Inl v"
  shows "fetchAndStitch br z sz pb =
           (map (\<lambda>(x, y). ImageSrc (tileUrl z x y)) (tileCoords pb), Inl (TileFetchError v))"
  using assms by (simp add: fetchAndStitch_def Let_def after_def)

text \<open>
  Claim C2. When a tile request of a capture fails, the capture ends with the error of a
  failed tile, whatever the other tiles did: every tile of the range was requested, no
  tile is drawn on the stitch canvas, nothing is scaled or encoded, and no file is handed
  over.
\<close>

theorem tile_failure_aborts_capture:
  assumes "mapInstance s = Some m" and "analysisBounds s = Some ab"
    and "ImageSrc u \<in> set (handleAnalyzeMapView br s)" and "loadImage br u = None"
  shows "\<exists>v. outcome br s = Some (Inl (TileFetchError v)) \<and> loadImage br v = None
            \<and> ImageSrc v \<in> set (handleAnalyzeMapView br s)
            \<and> handleAnalyzeMapView br s =
                [SetIsMapViewLoading True, SetMapViewError None, FitBounds ab, Wait 500,
                 CreateCanvas (canvas_dim (px (getSize (pixelBoundsOf m ab))))
                              (canvas_dim (py (getSize (pixelBoundsOf m ab))))] @
                map (\<lambda>(x, y). ImageSrc (tileUrl (getZoom m) x y)) (tileCoords (pixelBoundsOf m ab)) @
                [ConsoleError (TileFetchError v),
                 SetMapViewError (Some ''Could not capture map view. Please try again.''),
                 SetIsMapViewLoading False]
            \<and> (\<forall>img dx dy. DrawImage img dx dy \<notin> set (handleAnalyzeMapView br s))
            \<and> (\<forall>c sz. DrawImageScaled c sz \<notin> set (handleAnalyzeMapView br s))
            \<and> (\<forall>c ty. ToBlob c ty \<notin> set (handleAnalyzeMapView br s))
            \<and> (\<forall>f. OnAnalyzeFromMap f \<notin> set (handleAnalyzeMapView br s))"
proof -
  let ?pb = "pixelBoundsOf m ab"
  from assms(3) have "u \<in> set (requested (handleAnalyzeMapView br s))"
    by (simp add: set_requested)
  then have r: "u \<in> set (requested (fst (capture br m ab)))"
    by (simp add: requested_handle [OF assms(1,2)])
  then have nd: "\<not> (px (getSize ?pb) = 0 \<or> py (getSize ?pb) = 0)" and sc: "stitchContext br"
    by (auto simp: requested_capture split: if_splits)
  from r nd sc obtain c where c: "c \<in> set (tileCoords ?pb)" "u = tileUrl (getZoom m) (fst c) (snd c)"
    by (auto simp: requested_capture)
  with assms(4) obtain v where v: "awaitTiles (loadImage br) (getZoom m) (tileCoords ?pb) = Inl v"
    using awaitTiles_failure [of c "tileCoords ?pb" "loadImage br" "getZoom m"] by auto
  from awaitTiles_Inl [OF v] have lv: "loadImage br v = None"
    and iv: "v \<in> (\<lambda>(x, y). tileUrl (getZoom m) x y) ` set (tileCoords ?pb)" by simp_all
  have cap: "capture br m ab =
      ([FitBounds ab, Wait 500, CreateCanvas (canvas_dim (px (getSize ?pb))) (canvas_dim (py (getSize ?pb)))] @
       map (\<lambda>(x, y). ImageSrc (tileUrl (getZoom m) x y)) (tileCoords ?pb), Inl (TileFetchError v))"
    using nd sc by (simp add: capture_def Let_def fetchAndStitch_failure [OF v] after_def)
  have h: "handleAnalyzeMapView br s =
                [SetIsMapViewLoading True, SetMapViewError None, FitBounds ab, Wait 500,
                 CreateCanvas (canvas_dim (px (getSize ?pb))) (canvas_dim (py (getSize ?pb)))] @
                map (\<lambda>(x, y). ImageSrc (tileUrl (getZoom m) x y)) (tileCoords ?pb) @
                [ConsoleError (TileFetchError v),
                 SetMapViewError (Some ''Could not capture map view. Please try again.''),
                 SetIsMapViewLoading False]"
    using assms(1,2) by (simp add: handleAnalyzeMapView_def cap)
  have o: "outcome br s = Some (Inl (TileFetchError v))"
    using assms(1,2) by (simp add: outcome_def cap)
  have i: "ImageSrc v \<in> set (handleAnalyzeMapView br s)"
    using iv unfolding h by auto
  have n: "(\<forall>img dx dy. DrawImage img dx dy \<notin> set (handleAnalyzeMapView br s))
         \<and> (\<forall>c sz. DrawImageScaled c sz \<notin> set (handleAnalyzeMapView br s))
         \<and> (\<forall>c ty. ToBlob c ty \<notin> set (handleAnalyzeMapView br s))
         \<and> (\<forall>f. OnAnalyzeFromMap f \<notin> set (handleAnalyzeMapView br s))"
    unfolding h by auto
  from o lv i h n show ?thesis by blast
qed

theorem tile_failure_aborts_capture_witness:
  "ImageSrc (TileUrl 10 256 512) \<in> set (handleAnalyzeMapView failing_browser sample_section) \<and>
   loadImage failing_browser (TileUrl 10 256 512) = None \<and>
   loadImage failing_browser (TileUrl 10 255 511) \<noteq> None \<and>
   outcome failing_browser sample_section = Some (Inl (TileFetchError (TileUrl 10 256 512))) \<and>
   length (requested (handleAnalyzeMapView failing_browser sample_section)) = 9 \<and>
   (\<forall>img dx dy. DrawImage img dx dy \<notin> set (handleAnalyzeMapView failing_browser sample_section)) \<and>
   (\<forall>f. OnAnalyzeFromMap f \<notin> set (handleAnalyzeMapView failing_browser sample_section))"
proof -
  have sc: "stitchContext failing_browser" by (simp add: failing_browser_def sample_facts)
  have l: "loadImage failing_browser (TileUrl 10 256 512) = None"
    "loadImage failing_browser (TileUrl 10 255 511) \<noteq> None"
    by (simp_all add: failing_browser_def)
  have "TileUrl 10 256 512 \<in> set (requested (handleAnalyzeMapView failing_browser sample_section))"
    by (simp add: sample_requested sc)
  then have i: "ImageSrc (TileUrl 10 256 512) \<in> set (handleAnalyzeMapView failing_browser sample_section)"
    by (simp add: set_requested)
  from tile_failure_aborts_capture [OF sample_facts(1,2) i l(1)]
  obtain v where v: "outcome failing_browser sample_section = Some (Inl (TileFetchError v))"
      "loadImage failing_browser v = None"
      "(\<forall>img dx dy. DrawImage img dx dy \<notin> set (handleAnalyzeMapView failing_browser sample_section))"
      "(\<forall>f. OnAnalyzeFromMap f \<notin> set (handleAnalyzeMapView failing_browser sample_section))"
    by blast
  from v(2) have "v = TileUrl 10 256 512"
    by (simp add: failing_browser_def split: if_splits)
  with v i l show ?thesis by (simp add: sample_requested sc)
qed

section \<open>Degenerate regions\<close>

lemma equal_corners_degenerate:
  "southWest ab = northEast ab \<Longrightarrow> getSize (pixelBoundsOf m ab) = Point 0 0"
  by (simp add: pixelBoundsOf_def getNorthWest_def getSouthEast_def mk_bounds_def getSize_def)

text \<open>
  Claim C3, as the code has it. When the projected width or height of the analysis bounds
  is exactly zero, and in particular when the two corners of the bounds are equal, the
  capture fails with the degenerate-region error before any tile is requested.
\<close>

theorem degenerate_region_aborts_before_fetch:
  assumes "mapInstance s = Some m" and "analysisBounds s = Some ab"
    and "px (getSize (pixelBoundsOf m ab)) = 0 \<or> py (getSize (pixelBoundsOf m ab)) = 0
         \<or> southWest ab = northEast ab"
  shows "outcome br s = Some (Inl DegenerateRegionError)
       \<and> requested (handleAnalyzeMapView br s) = []
       \<and> handleAnalyzeMapView br s =
           [SetIsMapViewLoading True, SetMapViewError None, FitBounds ab, Wait 500,
            ConsoleError DegenerateRegionError,
            SetMapViewError (Some ''Could not capture map view. Please try again.''),
            SetIsMapViewLoading False]"
proof -
  from assms(3) have d: "px (getSize (pixelBoundsOf m ab)) = 0 \<or> py (getSize (pixelBoundsOf m ab)) = 0"
    using equal_corners_degenerate [of ab m] by auto
  then have c: "capture br m ab = ([FitBounds ab, Wait 500], Inl DegenerateRegionError)"
    by (simp add: capture_def Let_def after_def)
  with assms(1,2) show ?thesis
    by (simp add: outcome_def handleAnalyzeMapView_def)
qed

theorem degenerate_region_aborts_before_fetch_witness:
  "southWest point_bounds = northEast point_bounds \<and>
   outcome sample_browser (sample_section\<lparr>analysisBounds := Some point_bounds\<rparr>)
     = Some (Inl DegenerateRegionError) \<and>
   requested (handleAnalyzeMapView sample_browser (sample_section\<lparr>analysisBounds := Some point_bounds\<rparr>)) = []"
proof -
  have e: "southWest point_bounds = northEast point_bounds" by (simp add: point_bounds_def)
  have m: "mapInstance (sample_section\<lparr>analysisBounds := Some point_bounds\<rparr>) = Some sample_map"
    and a: "analysisBounds (sample_section\<lparr>analysisBounds := Some point_bounds\<rparr>) = Some point_bounds"
    by (simp_all add: sample_facts)
  from degenerate_region_aborts_before_fetch [OF m a, of sample_browser] e
  show ?thesis by simp
qed

text \<open>
  Claim C3 as stated speaks of a width or height that rounds to zero. The guard compares
  the unrounded size with zero: for analysis bounds a quarter of a pixel wide the width
  rounds to zero, three tiles are requested all the same, and the capture fails later, when
  the empty stitch canvas is scaled.
\<close>

theorem rounds_to_zero_counterexample:
  "round (px (getSize (pixelBoundsOf sample_map thin_bounds))) = 0 \<and>
   outcome sample_browser (sample_section\<lparr>analysisBounds := Some thin_bounds\<rparr>) = Some (Inl InvalidStateError) \<and>
   requested (handleAnalyzeMapView sample_browser (sample_section\<lparr>analysisBounds := Some thin_bounds\<rparr>))
     = [TileUrl 10 255 512, TileUrl 10 256 512, TileUrl 10 257 512]"
proof (intro conjI)
  show "round (px (getSize (pixelBoundsOf sample_map thin_bounds))) = 0"
    by (simp add: thin_pixelBounds getSize_def round_def)
  have z: "getZoom sample_map = 10" and c: "stitchContext sample_browser"
    and f: "finalContext sample_browser"
    and l: "loadImage sample_browser = (\<lambda>u. Some (solid 0xFF996633))"
    by (simp_all add: sample_map_def sample_browser_def)
  show "outcome sample_browser (sample_section\<lparr>analysisBounds := Some thin_bounds\<rparr>) = Some (Inl InvalidStateError)"
    by (simp add: outcome_def sample_section_def capture_def fetchAndStitch_def scaleToFinal_def
        thin_pixelBounds thin_coords getSize_def Let_def z c f l canvas_dim_def)
  have "requested (handleAnalyzeMapView sample_browser (sample_section\<lparr>analysisBounds := Some thin_bounds\<rparr>))
        = requested (fst (capture sample_browser sample_map thin_bounds))"
    by (rule requested_handle) (simp_all add: sample_section_def)
  then show "requested (handleAnalyzeMapView sample_browser (sample_section\<lparr>analysisBounds := Some thin_bounds\<rparr>))
     = [TileUrl 10 255 512, TileUrl 10 256 512, TileUrl 10 257 512]"
    by (simp add: requested_capture thin_pixelBounds thin_coords getSize_def z c tileUrl_def)
qed

section \<open>Stitching\<close>




lemma in_canvas_drawTile [simp]: "in_canvas (drawTile over pb t c) q = in_canvas c q"
  by (simp add: in_canvas_def)



lemma fetched_tiles_distinct:
  assumes "awaitTiles ld z (tileCoords pb) = Inr ts"
  shows "distinct (map (\<lambda>t. (tile_x t, tile_y t)) ts)"
  using awaitTiles_Inr [OF assms] distinct_tileCoords [of pb] by simp



section \<open>The region selector\<close>

lemma cos_deg_pos:
  assumes "- 90 < x" and "x < 90"
  shows "0 < cos ((pi / 180) * x)"
proof -
  have "- (pi / 2) < (pi / 180) * x"
  proof -
    have "(pi / 180) * (- 90) < (pi / 180) * x"
      using assms(1) by (intro mult_strict_left_mono) simp_all
    then show ?thesis by simp
  qed
  moreover have "(pi / 180) * x < pi / 2"
  proof -
    have "(pi / 180) * x < (pi / 180) * 90"
      using assms(2) by (intro mult_strict_left_mono) simp_all
    then show ?thesis by simp
  qed
  ultimately show ?thesis by (rule cos_gt_zero_pi)
qed

lemma toBounds_geometry:
  assumes "- 90 < lat c" and "lat c < 90" and "0 < d"
  shows "bounds_center (toBounds c d) = c"
    and "meters_north_south (toBounds c d) = d"
    and "meters_east_west (lat c) (toBounds c d) = d"
proof -
  let ?a = "180 * d / 40075017"
  let ?k = "cos ((pi / 180) * lat c)"
  have k: "0 < ?k" using assms(1,2) by (rule cos_deg_pos)
  have a: "0 < ?a" using assms(3) by simp
  have b: "0 < ?a / ?k" using a k by simp
  have t: "toBounds c d =
      \<lparr>southWest = LatLng (lat c - ?a) (lng c - ?a / ?k),
       northEast = LatLng (lat c + ?a) (lng c + ?a / ?k)\<rparr>"
    using a b by (simp add: toBounds_def toLatLngBounds_def Let_def min_def max_def)
  show "bounds_center (toBounds c d) = c"
    by (intro latlng.expand) (simp add: t bounds_center_def)
  show "meters_north_south (toBounds c d) = d"
    by (simp add: t meters_north_south_def)
  show "meters_east_west (lat c) (toBounds c d) = d"
    using k by (simp add: t meters_east_west_def)
qed

lemma computeBounds_eq:
  "computeBounds s =
     (case mapInstance s of
        None \<Rightarrow> analysisBounds s
      | Some m \<Rightarrow> if radius s > 0 then Some (toBounds (getCenter m) (radius s * 2)) else None)"
  by (simp add: computeBounds_def updateAnalysisBounds_def split: option.splits)

text \<open>
  Claim C5. On a map centred at a point between the poles, a radius of zero yields no
  analysis bounds, and a radius \<open>r > 0\<close> yields the box \<open>toBounds center (2 * r)\<close>: its
  centre is the map centre, it extends \<open>2 * r\<close> metres from south to north, and
  \<open>2 * r\<close> metres from west to east along the parallel of the centre, at every
  latitude.
\<close>

theorem computeBounds_square:
  assumes "mapInstance s = Some m" and "- 90 < lat (getCenter m)" and "lat (getCenter m) < 90"
  shows "(radius s = 0 \<longrightarrow> computeBounds s = None)
       \<and> (radius s > 0 \<longrightarrow>
            (\<exists>b. computeBounds s = Some b
                \<and> b = toBounds (getCenter m) (2 * radius s)
                \<and> bounds_center b = getCenter m
                \<and> meters_north_south b = 2 * radius s
                \<and> meters_east_west (lat (getCenter m)) b = 2 * radius s))"
proof (intro conjI impI)
  assume "radius s = 0"
  with assms(1) show "computeBounds s = None" by (simp add: computeBounds_eq)
next
  assume r: "radius s > 0"
  then have "0 < 2 * radius s" by simp
  from toBounds_geometry [OF assms(2,3) this] r assms(1)
  show "\<exists>b. computeBounds s = Some b
                \<and> b = toBounds (getCenter m) (2 * radius s)
                \<and> bounds_center b = getCenter m
                \<and> meters_north_south b = 2 * radius s
                \<and> meters_east_west (lat (getCenter m)) b = 2 * radius s"
    by (simp add: computeBounds_eq mult.commute)
qed

theorem computeBounds_square_witness:
  "mapInstance sample_section = Some sample_map \<and> 0 < radius sample_section \<and>
   (\<exists>b. computeBounds sample_section = Some b \<and> bounds_center b = LatLng 0 0 \<and>
        meters_north_south b = 1000 \<and> meters_east_west 0 b = 1000) \<and>
   radius (sample_section\<lparr>radius := 0\<rparr>) = 0 \<and>
   computeBounds (sample_section\<lparr>radius := 0\<rparr>) = None"
proof -
  have l: "- 90 < lat (getCenter sample_map)" "lat (getCenter sample_map) < 90"
    by (simp_all add: sample_facts)
  have r: "radius sample_section = 500" by (simp add: sample_section_def)
  have m0: "mapInstance (sample_section\<lparr>radius := 0\<rparr>) = Some sample_map"
    by (simp add: sample_facts)
  from computeBounds_square [OF sample_facts(1) l] computeBounds_square [OF m0 l] r
  show ?thesis by (simp add: sample_facts)
qed

section \<open>The 512 by 512 scenario\<close>

lemma floor_shift_512: "\<lfloor>(x + 512) / 256\<rfloor> = \<lfloor>x / 256\<rfloor> + 2" for x :: real
proof -
  have "(x + 512) / 256 = x / 256 + of_int 2" by simp
  then show ?thesis by (simp only: floor_add_int)
qed

lemma tileCoords_512:
  assumes "getSize (pixelBoundsOf m ab) = Point 512 512"
  shows "tileCoords (pixelBoundsOf m ab) =
     (let x0 = \<lfloor>px (bmin (pixelBoundsOf m ab)) / tileSize\<rfloor>;
          y0 = \<lfloor>py (bmin (pixelBoundsOf m ab)) / tileSize\<rfloor>
      in List.product [x0 .. x0 + 2] [y0 .. y0 + 2])"
proof -
  let ?pb = "pixelBoundsOf m ab"
  from assms have x: "px (bmax ?pb) = px (bmin ?pb) + 512" and y: "py (bmax ?pb) = py (bmin ?pb) + 512"
    by (simp_all add: getSize_def)
  have "tileCoords ?pb =
     List.product [\<lfloor>px (bmin ?pb) / 256\<rfloor> .. \<lfloor>px (bmax ?pb) / 256\<rfloor>]
                  [\<lfloor>py (bmin ?pb) / 256\<rfloor> .. \<lfloor>py (bmax ?pb) / 256\<rfloor>]"
    unfolding pixelBoundsOf_def by (rule tileCoords_mk_bounds)
  then show ?thesis
    by (simp add: x y floor_shift_512 tileSize_def Let_def)
qed

text \<open>
  Claim C6, as the code has it. When the pixel bounds measure 512 by 512 pixels, the
  capture requests exactly nine tiles, the grid of three by three indices that starts at
  \<open>floor (min / tileSize)\<close>; the stitch canvas measures 512 by 512 pixels, and the
  stitched canvas is scaled to the size of the map's container, which is the size of the
  canvas that is encoded.
\<close>

theorem capture_512_requests_nine_tiles:
  assumes "mapInstance s = Some m" and "analysisBounds s = Some ab"
    and "getSize (pixelBoundsOf m ab) = Point 512 512" and "stitchContext br"
  shows "requested (handleAnalyzeMapView br s) =
           (let x0 = \<lfloor>px (bmin (pixelBoundsOf m ab)) / tileSize\<rfloor>;
                y0 = \<lfloor>py (bmin (pixelBoundsOf m ab)) / tileSize\<rfloor>
            in map (\<lambda>(x, y). tileUrl (getZoom m) x y) (List.product [x0 .. x0 + 2] [y0 .. y0 + 2]))
       \<and> length (requested (handleAnalyzeMapView br s)) = 9
       \<and> distinct (requested (handleAnalyzeMapView br s))
       \<and> CreateCanvas 512 512 \<in> set (handleAnalyzeMapView br s)
       \<and> (\<forall>c sz. DrawImageScaled c sz \<in> set (handleAnalyzeMapView br s) \<longrightarrow>
             cv_width c = 512 \<and> cv_height c = 512 \<and> sz = getViewSize m)
       \<and> (\<forall>f. outcome br s = Some (Inr f) \<longrightarrow>
             (\<exists>c. DrawImageScaled c (getViewSize m) \<in> set (handleAnalyzeMapView br s)) \<and>
             (\<exists>c blob. ToBlob c ''image/png'' \<in> set (handleAnalyzeMapView br s) \<and>
                       cv_width c = fst (getViewSize m) \<and> cv_height c = snd (getViewSize m) \<and>
                       toBlob br c ''image/png'' = Some blob \<and> file_parts f = [blob]))"
proof -
  let ?pb = "pixelBoundsOf m ab"
  let ?x0 = "\<lfloor>px (bmin ?pb) / tileSize\<rfloor>" and ?y0 = "\<lfloor>py (bmin ?pb) / tileSize\<rfloor>"
  have r: "requested (handleAnalyzeMapView br s) =
           map (\<lambda>(x, y). tileUrl (getZoom m) x y) (List.product [?x0 .. ?x0 + 2] [?y0 .. ?y0 + 2])"
    using assms(3,4) tileCoords_512 [OF assms(3)]
    by (simp add: requested_handle [OF assms(1,2)] requested_capture Let_def)
  have l: "length (requested (handleAnalyzeMapView br s)) = 9"
    unfolding r by simp
  have "inj_on (\<lambda>(x, y). tileUrl (getZoom m) x y) A" for A
    by (auto simp: inj_on_def tileUrl_def)
  then have d: "distinct (requested (handleAnalyzeMapView br s))"
    unfolding r by (simp add: distinct_map distinct_product)
  have c: "CreateCanvas 512 512 \<in> set (handleAnalyzeMapView br s)"
    using assms(3,4) unfolding handle_events [OF assms(1,2)]
    by (simp add: capture_def Let_def canvas_dim_def)
  have e: "cv_width c = 512 \<and> cv_height c = 512 \<and> sz = getViewSize m"
    if "DrawImageScaled c sz \<in> set (handleAnalyzeMapView br s)" for c sz
  proof -
    from that have "DrawImageScaled c sz \<in> set (fst (capture br m ab))"
      using assms(1,2) by (cases "capture br m ab"; auto simp: handleAnalyzeMapView_def split: sum.splits)
    with assms(3) show ?thesis
      by (auto simp: capture_unfold canvas_dim_def split: sum.splits option.splits if_splits)
  qed
  have f: "(\<exists>c. DrawImageScaled c (getViewSize m) \<in> set (handleAnalyzeMapView br s)) \<and>
             (\<exists>c blob. ToBlob c ''image/png'' \<in> set (handleAnalyzeMapView br s) \<and>
                       cv_width c = fst (getViewSize m) \<and> cv_height c = snd (getViewSize m) \<and>
                       toBlob br c ''image/png'' = Some blob \<and> file_parts f = [blob])"
    if "outcome br s = Some (Inr f)" for f
  proof -
    from that have o: "snd (capture br m ab) = Inr f"
      using assms(1,2) by (simp add: outcome_def)
    then have "\<exists>c. DrawImageScaled c (getViewSize m) \<in> set (fst (capture br m ab))"
      by (auto simp: capture_unfold split: sum.splits option.splits if_splits)
    then have "\<exists>c. DrawImageScaled c (getViewSize m) \<in> set (handleAnalyzeMapView br s)"
      using assms(1,2) by (cases "capture br m ab"; auto simp: handleAnalyzeMapView_def split: sum.splits)
    with capture_success [OF o] show ?thesis
      unfolding handle_events [OF assms(1,2)] by blast
  qed
  from r l d c e f show ?thesis
    unfolding Let_def by blast
qed

theorem capture_512_requests_nine_tiles_witness:
  "getSize (pixelBoundsOf sample_map sample_bounds) = Point 512 512 \<and>
   stitchContext sample_browser \<and>
   length (requested (handleAnalyzeMapView sample_browser sample_section)) = 9 \<and>
   CreateCanvas 512 512 \<in> set (handleAnalyzeMapView sample_browser sample_section)"
proof -
  from capture_512_requests_nine_tiles [OF sample_facts(1,2) sample_size sample_facts(6)]
  have "length (requested (handleAnalyzeMapView sample_browser sample_section)) = 9"
    and "CreateCanvas 512 512 \<in> set (handleAnalyzeMapView sample_browser sample_section)"
    by blast+
  with sample_size sample_facts(6) show ?thesis by simp
qed

text \<open>
  Claim C6 as stated expects four tiles. In the sample (pixel bounds of 512 by 512
  pixels at zoom 10, container of 800 by 600 pixels) nine are requested: the range ends at
  \<open>floor (max / tileSize)\<close>, which is two more than \<open>floor (min / tileSize)\<close>.
\<close>

theorem four_tiles_counterexample:
  "getSize (pixelBoundsOf sample_map sample_bounds) = Point 512 512 \<and>
   getZoom sample_map = 10 \<and> getViewSize sample_map = (800, 600) \<and>
   length (requested (handleAnalyzeMapView sample_browser sample_section)) = 9 \<and>
   length (requested (handleAnalyzeMapView sample_browser sample_section)) \<noteq> 4"
  by (simp add: sample_size sample_facts sample_requested)

section \<open>Encoding and hand-over\<close>



section \<open>Image segmentation responses\<close>

lemma replay_analysis_simps [simp]:
  "replay_analysis [] s = s"
  "replay_analysis (e # evs) s = replay_analysis evs (apply_analysis_event e s)"
  "replay_analysis (evs @ evs') s = replay_analysis evs' (replay_analysis evs s)"
  by (simp_all add: replay_analysis_def)







section \<open>The capture-in-progress flag\<close>

lemma encodeFinal_no_flag: "SetIsMapViewLoading b \<notin> set (fst (encodeFinal br c))"
  by (auto simp: encodeFinal_def Let_def split: option.splits)

lemma scaleToFinal_no_flag: "SetIsMapViewLoading b \<notin> set (fst (scaleToFinal br sz c))"
  by (auto simp: scaleToFinal_def Let_def encodeFinal_no_flag)

lemma fetchAndStitch_no_flag: "SetIsMapViewLoading b \<notin> set (fst (fetchAndStitch br z sz pb))"
  by (auto simp: fetchAndStitch_def Let_def scaleToFinal_no_flag split: sum.splits)

lemma capture_no_flag: "SetIsMapViewLoading b \<notin> set (fst (capture br m ab))"
  by (auto simp: capture_def Let_def fetchAndStitch_no_flag)

lemma replay_keeps_flag:
  "(\<And>b. SetIsMapViewLoading b \<notin> set evs) \<Longrightarrow>
     isMapViewLoading (replay evs s) = isMapViewLoading s"
proof (induction evs arbitrary: s)
  case Nil
  then show ?case by simp
next
  case (Cons e evs)
  have "isMapViewLoading (apply_event e s) = isMapViewLoading s"
    using Cons.prems [of "case e of SetIsMapViewLoading b \<Rightarrow> b | _ \<Rightarrow> True"]
    by (cases e) simp_all
  moreover have "isMapViewLoading (replay evs (apply_event e s)) = isMapViewLoading (apply_event e s)"
    using Cons.prems by (intro Cons.IH) auto
  ultimately show ?case by simp
qed

lemma handleAnalyzeMapView_shape:
  assumes "mapInstance s = Some m" "analysisBounds s = Some ab"
  shows "\<exists>evs. handleAnalyzeMapView br s = SetIsMapViewLoading True # evs @ [SetIsMapViewLoading False]
            \<and> (\<forall>b. SetIsMapViewLoading b \<notin> set evs)"
proof (cases "capture br m ab")
  case (Pair evs r)
  have n: "SetIsMapViewLoading b \<notin> set evs" for b
    using capture_no_flag [of b br m ab] Pair by simp
  show ?thesis
  proof (cases r)
    case (Inl e)
    with Pair assms n show ?thesis
      by (intro exI [of _ "SetMapViewError None # evs @ [ConsoleError e,
            SetMapViewError (Some ''Could not capture map view. Please try again.'')]"])
         (simp add: handleAnalyzeMapView_def)
  next
    case (Inr f)
    with Pair assms n show ?thesis
      by (intro exI [of _ "SetMapViewError None # evs"]) (simp add: handleAnalyzeMapView_def)
  qed
qed

text \<open>
  Claim C9. A run of \<^verbatim>\<open>handleAnalyzeMapView\<close> that starts a capture sets the flag first
  and clears it last, and nothing in between touches it: the flag is set after every
  proper non-empty prefix of the run and cleared after the whole run, whatever the outcome
  of the capture. A run without a map or without analysis bounds has no effect at all.
\<close>

theorem capture_flag_held_and_released:
  fixes br :: browser and s :: mapSection
  defines "trace \<equiv> handleAnalyzeMapView br s"
  shows "(mapInstance s = None \<or> analysisBounds s = None \<longrightarrow> trace = [])
       \<and> (mapInstance s \<noteq> None \<and> analysisBounds s \<noteq> None \<longrightarrow>
            (\<exists>evs. trace = SetIsMapViewLoading True # evs @ [SetIsMapViewLoading False]
                 \<and> (\<forall>b. SetIsMapViewLoading b \<notin> set evs))
          \<and> (\<forall>n. 0 < n \<and> n < length trace \<longrightarrow> isMapViewLoading (replay (take n trace) s))
          \<and> \<not> isMapViewLoading (replay trace s))"
proof (intro conjI impI)
  assume "mapInstance s = None \<or> analysisBounds s = None"
  then show "trace = []"
    by (auto simp: trace_def handleAnalyzeMapView_def split: option.splits)
next
  assume a: "mapInstance s \<noteq> None \<and> analysisBounds s \<noteq> None"
  then obtain m ab where "mapInstance s = Some m" "analysisBounds s = Some ab" by auto
  from handleAnalyzeMapView_shape [OF this, of br]
  obtain evs where l: "trace = SetIsMapViewLoading True # evs @ [SetIsMapViewLoading False]"
    and n: "\<And>b. SetIsMapViewLoading b \<notin> set evs"
    unfolding trace_def by blast
  from l n show "\<exists>evs. trace = SetIsMapViewLoading True # evs @ [SetIsMapViewLoading False]
                 \<and> (\<forall>b. SetIsMapViewLoading b \<notin> set evs)" by blast
  show "\<not> isMapViewLoading (replay trace s)"
    by (simp add: l)
  show "\<forall>n. 0 < n \<and> n < length trace \<longrightarrow> isMapViewLoading (replay (take n trace) s)"
  proof (intro allI impI)
    fix k assume k: "0 < k \<and> k < length trace"
    then obtain j where j: "k = Suc j" by (cases k) auto
    with k l have "j \<le> length evs" by simp
    then have t: "take k trace = SetIsMapViewLoading True # take j evs"
      by (simp add: l j)
    have "SetIsMapViewLoading b \<notin> set (take j evs)" for b
      using n [of b] by (auto dest: in_set_takeD)
    then have "isMapViewLoading (replay (take j evs) (s\<lparr>isMapViewLoading := True\<rparr>))
               = isMapViewLoading (s\<lparr>isMapViewLoading := True\<rparr>)"
      by (rule replay_keeps_flag)
    then show "isMapViewLoading (replay (take k trace) s)"
      by (simp add: t)
  qed
qed

theorem capture_flag_held_and_released_witness:
  "mapInstance sample_section \<noteq> None \<and> analysisBounds sample_section \<noteq> None \<and>
   \<not> isMapViewLoading (replay (handleAnalyzeMapView sample_browser sample_section) sample_section) \<and>
   isMapViewLoading (replay (take 1 (handleAnalyzeMapView sample_browser sample_section)) sample_section) \<and>
   mapInstance (sample_section\<lparr>mapInstance := None\<rparr>) = None \<and>
   handleAnalyzeMapView sample_browser (sample_section\<lparr>mapInstance := None\<rparr>) = []"
proof -
  have a: "mapInstance sample_section \<noteq> None \<and> analysisBounds sample_section \<noteq> None"
    by (simp add: sample_facts)
  have b: "mapInstance (sample_section\<lparr>mapInstance := None\<rparr>) = None" by simp
  have "1 < length (handleAnalyzeMapView sample_browser sample_section)"
    using capture_flag_held_and_released [of sample_section sample_browser] a by auto
  with a b capture_flag_held_and_released [of sample_section sample_browser]
    capture_flag_held_and_released [of "sample_section\<lparr>mapInstance := None\<rparr>" sample_browser]
  show ?thesis by simp
qed

section \<open>The bounds of the insights request\<close>

text \<open>
  Claim C10. Every insights request carries the box \<open>toBounds center 20000\<close> around the
  centre of the map (20000 metres from south to north and from west to east along the
  centre's parallel); a run with a map and at least one topic makes this request; and the
  run is the same whatever the radius and the analysis bounds are.
\<close>

theorem insights_bounds_fixed:
  "(\<forall>b ts c. GetMapInsights b ts c \<in> set (handleGetInsights ask s) \<longrightarrow>
       (\<exists>m. mapInstance s = Some m \<and> b = toBounds (getCenter m) 20000
          \<and> (- 90 < lat (getCenter m) \<and> lat (getCenter m) < 90 \<longrightarrow>
               bounds_center b = getCenter m \<and> meters_north_south b = 20000
               \<and> meters_east_west (lat (getCenter m)) b = 20000)))
   \<and> (\<forall>m. mapInstance s = Some m \<and> (selectedTopics s \<noteq> [] \<or> trim (customTopic s) \<noteq> []) \<longrightarrow>
         GetMapInsights (toBounds (getCenter m) 20000) (selectedTopics s) (trim (customTopic s))
           \<in> set (handleGetInsights ask s))
   \<and> handleGetInsights ask (s\<lparr>radius := r, analysisBounds := ab\<rparr>) = handleGetInsights ask s"
proof (intro conjI allI impI)
  fix b ts c assume e: "GetMapInsights b ts c \<in> set (handleGetInsights ask s)"
  then obtain m where m: "mapInstance s = Some m"
    by (cases "mapInstance s") (auto simp: handleGetInsights_def Let_def)
  with e have b: "b = toBounds (getCenter m) 20000"
    by (auto simp: handleGetInsights_def Let_def split: if_splits option.splits)
  have "bounds_center b = getCenter m \<and> meters_north_south b = 20000
               \<and> meters_east_west (lat (getCenter m)) b = 20000"
    if "- 90 < lat (getCenter m) \<and> lat (getCenter m) < 90"
    using toBounds_geometry [of "getCenter m" 20000] that unfolding b by simp
  with m b show "\<exists>m. mapInstance s = Some m \<and> b = toBounds (getCenter m) 20000
          \<and> (- 90 < lat (getCenter m) \<and> lat (getCenter m) < 90 \<longrightarrow>
               bounds_center b = getCenter m \<and> meters_north_south b = 20000
               \<and> meters_east_west (lat (getCenter m)) b = 20000)"
    by blast
next
  fix m assume "mapInstance s = Some m \<and> (selectedTopics s \<noteq> [] \<or> trim (customTopic s) \<noteq> [])"
  then show "GetMapInsights (toBounds (getCenter m) 20000) (selectedTopics s) (trim (customTopic s))
           \<in> set (handleGetInsights ask s)"
    by (auto simp: handleGetInsights_def Let_def)
next
  show "handleGetInsights ask (s\<lparr>radius := r, analysisBounds := ab\<rparr>) = handleGetInsights ask s"
    by (cases "mapInstance s") (auto simp: handleGetInsights_def Let_def)
qed

theorem insights_bounds_fixed_witness:
  "GetMapInsights (toBounds (LatLng 0 0) 20000) [''safety''] ''air quality''
     \<in> set (handleGetInsights sample_ask sample_section) \<and>
   meters_north_south (toBounds (LatLng 0 0) 20000) = 20000 \<and>
   handleGetInsights sample_ask (sample_section\<lparr>radius := 2000, analysisBounds := None\<rparr>)
     = handleGetInsights sample_ask sample_section"
proof -
  have t: "trim (customTopic sample_section) = ''air quality''"
    by (simp add: sample_section_def trim_def is_space_def)
  have s: "selectedTopics sample_section = [''safety'']" by (simp add: sample_section_def)
  note th = insights_bounds_fixed [where ask = sample_ask and s = sample_section and r = 2000 and ab = None]
  from th t s have e: "GetMapInsights (toBounds (LatLng 0 0) 20000) [''safety''] ''air quality''
     \<in> set (handleGetInsights sample_ask sample_section)"
    by (simp add: sample_facts)
  with th have "meters_north_south (toBounds (LatLng 0 0) 20000) = 20000"
    by (auto simp: sample_facts)
  with e th show ?thesis by simp
qed

end
